theory Spec2Isabelle
  imports Complex_Main
begin

section \<open>Python slicing\<close>

text \<open>
  The source slices strings and arrays with \<^verbatim>\<open>xs[i:j]\<close> and \<^verbatim>\<open>xs[i:]\<close>. Python
  clamps both bounds to the length and counts a negative bound from the end; \<open>slice_index\<close>
  is that normalisation of one bound for a sequence of length \<open>n\<close>.
\<close>

definition slice_index :: "nat \<Rightarrow> int \<Rightarrow> nat" where
  "slice_index n i = (if i < 0 then nat (i + int n) else min n (nat i))"

definition py_slice :: "'a list \<Rightarrow> int \<Rightarrow> int \<Rightarrow> 'a list" where
  "py_slice xs i j =
     (let lo = slice_index (length xs) i; hi = slice_index (length xs) j
      in take (hi - lo) (drop lo xs))"

definition py_slice_from :: "'a list \<Rightarrow> int \<Rightarrow> 'a list" where
  "py_slice_from xs i = drop (slice_index (length xs) i) xs"

section \<open>The chunker\<close>

text \<open>
  \<^verbatim>\<open>
  def chunk_text(text, chunk_size=1000, overlap=200):
      chunks = []
      start = 0
      while start < len(text):
          end = start + chunk_size
          chunk = text[start:end]
          chunks.append(chunk)
          start = end - overlap
      return chunks
  \<close>
  The loop has no guard on its parameters, so it need not terminate: it is a partial
  function in the option monad, where \<open>None\<close> is "does not return". \<open>chunk_loop\<close> is the
  \<^verbatim>\<open>while\<close> loop with its two variables \<^verbatim>\<open>start\<close> and \<^verbatim>\<open>chunks\<close>. Python's integers
  are unbounded, hence \<open>int\<close>. A \<open>char\<close> stands for one character of the Python string.
\<close>

partial_function (option) chunk_loop ::
  "string \<Rightarrow> int \<Rightarrow> int \<Rightarrow> int \<Rightarrow> string list \<Rightarrow> string list option" where
  "chunk_loop text chunk_size overlap start chunks =
     (if start < int (length text)
      then chunk_loop text chunk_size overlap (start + chunk_size - overlap)
             (chunks @ [py_slice text start (start + chunk_size)])
      else Some chunks)"

definition chunk_text :: "string \<Rightarrow> int \<Rightarrow> int \<Rightarrow> string list option" where
  "chunk_text text chunk_size overlap = chunk_loop text chunk_size overlap 0 []"

section \<open>The embedding provider and the similarity ranker\<close>

text \<open>
  An embedding is a list of numbers; the floating-point numbers of the source are modelled
  by the reals, so rounding is outside the model. The hosted embedding API is a parameter
  \<open>client\<close>: it maps a batch of texts to \<open>Some\<close> embeddings, or to \<open>None\<close> when the call
  raises. \<open>get_embeddings\<close> catches every exception and returns \<^verbatim>\<open>None\<close>:
  \<^verbatim>\<open>
  def get_embeddings(texts):
      try:
          response = client.embeddings.create(model=..., input=texts)
          return [item.embedding for item in response.data]
      except Exception as e:
          return None
  \<close>
\<close>

type_synonym user_id = string
type_synonym vector = "real list"
type_synonym provider = "string list \<Rightarrow> vector list option"

datatype py_exception = ValueError | IndexError

definition get_embeddings :: "provider \<Rightarrow> string list \<Rightarrow> vector list option" where
  "get_embeddings client texts = client texts"

text \<open>
  \<^verbatim>\<open>cosine_similarity\<close> of scikit-learn divides every row by its Euclidean norm, a zero norm
  being replaced by 1, and multiplies the normalised matrices; it raises \<^verbatim>\<open>ValueError\<close> when
  the two arguments differ in their number of columns or have none. Its first argument is
  the single row of the query here, and the model returns the single row of the result.
\<close>

definition dot :: "vector \<Rightarrow> vector \<Rightarrow> real" where
  "dot a b = sum_list (map2 (*) a b)"

definition normalize :: "vector \<Rightarrow> vector" where
  "normalize x = (let n = sqrt (dot x x) in map (\<lambda>c. c / (if n = 0 then 1 else n)) x)"

definition cosine_similarity :: "vector \<Rightarrow> vector list \<Rightarrow> py_exception + real list" where
  "cosine_similarity x Y =
     (if length x = 0 \<or> (\<exists>y \<in> set Y. length y \<noteq> length x) then Inl ValueError
      else Inr (map (\<lambda>y. dot (normalize x) (normalize y)) Y))"

text \<open>
  \<^verbatim>\<open>np.argsort\<close> is NumPy's; the source calls it with the default sort kind, which NumPy
  documents as not stable. What the call guarantees is that it returns the indices of the
  array, each once, in an order that sorts the array ascending; the order of the indices
  of equal values is left open, and differs between NumPy builds. The model therefore
  takes the function as a parameter \<open>argsort\<close>, and \<open>argsort_spec\<close> is what is known of it.
  \<open>stable_argsort\<close>, which keeps equal values in index order, is one function that meets
  \<open>argsort_spec\<close>; it serves to evaluate the model on concrete inputs.
  \<open>top_indices\<close> is \<^verbatim>\<open>np.argsort(similarities)[-top_k:][::-1]\<close>.
\<close>

definition argsort_spec :: "('a::linorder list \<Rightarrow> nat list) \<Rightarrow> bool" where
  "argsort_spec argsort =
     (\<forall>a. distinct (argsort a) \<and> set (argsort a) = {0..<length a}
          \<and> sorted (map (\<lambda>i. a ! i) (argsort a)))"

definition stable_argsort :: "'a::linorder list \<Rightarrow> nat list" where
  "stable_argsort a = sort_key (\<lambda>i. a ! i) [0..<length a]"

definition top_indices ::
  "('a::linorder list \<Rightarrow> nat list) \<Rightarrow> 'a list \<Rightarrow> int \<Rightarrow> nat list" where
  "top_indices argsort similarities top_k =
     rev (py_slice_from (argsort similarities) (- top_k))"

text \<open>\<^verbatim>\<open>[pdf_data['chunks'][i] for i in top_indices]\<close>: indexing a Python list beyond its
  length raises \<^verbatim>\<open>IndexError\<close>.\<close>

definition select_chunks :: "string list \<Rightarrow> nat list \<Rightarrow> py_exception + string list" where
  "select_chunks cs idx =
     (if \<forall>i \<in> set idx. i < length cs then Inr (map (\<lambda>i. cs ! i) idx) else Inl IndexError)"

section \<open>The per-user store\<close>

text \<open>
  \<^verbatim>\<open>user_pdf_data\<close> is a dictionary from user ids to dictionaries with the keys
  \<^verbatim>\<open>'chunks'\<close>, \<^verbatim>\<open>'embeddings'\<close> and \<^verbatim>\<open>'loaded'\<close>. The source keeps it in a global variable;
  the model passes it to every handler, and the handlers that can change it return it.
\<close>

record pdf_data =
  chunks :: "string list"
  embeddings :: "vector list"
  loaded :: bool

type_synonym store = "user_id \<rightharpoonup> pdf_data"

definition retrieve_relevant_chunks ::
  "(real list \<Rightarrow> nat list) \<Rightarrow> provider \<Rightarrow> store \<Rightarrow> user_id \<Rightarrow> string \<Rightarrow> int
     \<Rightarrow> py_exception + string list" where
  "retrieve_relevant_chunks argsort client user_pdf_data user_id query top_k =
     (case user_pdf_data user_id of
        None \<Rightarrow> Inr []
      | Some pdf \<Rightarrow>
          if \<not> loaded pdf \<or> length (embeddings pdf) = 0 then Inr []
          else (case get_embeddings client [query] of
                  None \<Rightarrow> Inr []
                | Some [] \<Rightarrow> Inr []
                | Some (query_embedding # _) \<Rightarrow>
                    (case cosine_similarity query_embedding (embeddings pdf) of
                       Inl e \<Rightarrow> Inl e
                     | Inr similarities \<Rightarrow>
                         select_chunks (chunks pdf)
                           (top_indices argsort similarities top_k))))"

text \<open>
  The handlers answer with a JSON body and a status code; the failures that matter here are
  the constructors of \<open>error\<close>, named after the error kinds of the specification, with the
  status code of the source in \<open>status_code\<close>:
  \<^item> \<open>ExtractionEmpty\<close>: "Could not extract text from PDF";
  \<^item> \<open>EmbeddingProviderError\<close>: "Failed to generate embeddings";
  \<^item> \<open>ProcessingError\<close>: "Error processing PDF: ..." (an exception inside the handler);
  \<^item> \<open>NoDocumentLoaded\<close>: "Please upload a PDF first";
  \<^item> \<open>NoMessage\<close>: "No message provided";
  \<^item> \<open>RetrievalEmpty\<close>: "Could not retrieve relevant information";
  \<^item> \<open>GenerationError\<close>: "Error generating response: ..." (an exception inside the handler).
\<close>

datatype error =
    ExtractionEmpty
  | EmbeddingProviderError
  | ProcessingError
  | NoDocumentLoaded
  | NoMessage
  | RetrievalEmpty
  | GenerationError

fun status_code :: "error \<Rightarrow> nat" where
  "status_code ExtractionEmpty = 400"
| "status_code EmbeddingProviderError = 500"
| "status_code ProcessingError = 500"
| "status_code NoDocumentLoaded = 400"
| "status_code NoMessage = 400"
| "status_code RetrievalEmpty = 500"
| "status_code GenerationError = 500"

text \<open>\<^verbatim>\<open>str.strip()\<close> removes leading and trailing whitespace; \<open>py_isspace\<close> lists the
  whitespace characters among the code points below 256.\<close>

definition py_isspace :: "char \<Rightarrow> bool" where
  "py_isspace c = (of_char c \<in> {9, 10, 11, 12, 13, 28, 29, 30, 31, 32, 133, 160 :: nat})"

definition strip :: "string \<Rightarrow> string" where
  "strip s = rev (dropWhile py_isspace (rev (dropWhile py_isspace s)))"

text \<open>\<^verbatim>\<open>np.array(embeddings)\<close> builds the matrix of the embeddings; rows of different
  lengths raise \<^verbatim>\<open>ValueError\<close>.\<close>

definition np_array :: "vector list \<Rightarrow> py_exception + vector list" where
  "np_array rows =
     (if \<forall>r \<in> set rows. length r = length (hd rows) then Inr rows else Inl ValueError)"

text \<open>
  \<open>upload_pdf\<close> is the upload handler for the authenticated user \<open>user_id\<close>, from the text
  that the PDF library extracted:
  \<^verbatim>\<open>
      if not text.strip():
          return jsonify({'error': 'Could not extract text from PDF'}), 400
      chunks = chunk_text(text)
      embeddings = get_embeddings(chunks)
      if not embeddings:
          return jsonify({'error': 'Failed to generate embeddings'}), 500
      embeddings_array = np.array(embeddings)
      user_pdf_data[user_id] = {'chunks': chunks, 'embeddings': embeddings_array, 'loaded': True}
      ...
      return jsonify({'message': ..., 'chunks': len(chunks)})
  except Exception as e:
      return jsonify({'error': f'Error processing PDF: {str(e)}'}), 500
  \<close>
  It returns the store and either an error or the number of chunks; \<open>None\<close> is "does not
  return", inherited from \<open>chunk_text\<close>.
\<close>

definition upload_pdf ::
  "provider \<Rightarrow> store \<Rightarrow> user_id \<Rightarrow> string \<Rightarrow> (store \<times> (error + nat)) option" where
  "upload_pdf client user_pdf_data user_id text =
     (if strip text = [] then Some (user_pdf_data, Inl ExtractionEmpty)
      else (case chunk_text text 1000 200 of
              None \<Rightarrow> None
            | Some cs \<Rightarrow>
                (case get_embeddings client cs of
                   None \<Rightarrow> Some (user_pdf_data, Inl EmbeddingProviderError)
                 | Some [] \<Rightarrow> Some (user_pdf_data, Inl EmbeddingProviderError)
                 | Some (v # vs) \<Rightarrow>
                     (case np_array (v # vs) of
                        Inl e \<Rightarrow> Some (user_pdf_data, Inl ProcessingError)
                      | Inr embeddings_array \<Rightarrow>
                          Some (user_pdf_data(user_id \<mapsto>
                                  \<lparr>chunks = cs, embeddings = embeddings_array, loaded = True\<rparr>),
                                Inr (length cs))))))"

text \<open>
  \<open>pdf_chat\<close> is the chat handler for the authenticated user, up to the chunks it retrieves:
  \<^verbatim>\<open>
  if user_id not in user_pdf_data or not user_pdf_data[user_id]['loaded']:
      return jsonify({'error': 'Please upload a PDF first'}), 400
  query = data.get('message', '')
  if not query:
      return jsonify({'error': 'No message provided'}), 400
  try:
      relevant_chunks = retrieve_relevant_chunks(user_id, query, top_k=3)
      if not relevant_chunks:
          return jsonify({'error': 'Could not retrieve relevant information'}), 500
      ...
  except Exception as e:
      return jsonify({'error': f'Error generating response: {str(e)}'}), 500
  \<close>
  The handler goes on to send the chunks to the completion API and to log the chat; neither
  reads or writes \<^verbatim>\<open>user_pdf_data\<close>, and both are outside the model.
\<close>

definition pdf_chat ::
  "(real list \<Rightarrow> nat list) \<Rightarrow> provider \<Rightarrow> store \<Rightarrow> user_id \<Rightarrow> string
     \<Rightarrow> store \<times> (error + string list)" where
  "pdf_chat argsort client user_pdf_data user_id query =
     (case user_pdf_data user_id of
        None \<Rightarrow> (user_pdf_data, Inl NoDocumentLoaded)
      | Some pdf \<Rightarrow>
          if \<not> loaded pdf then (user_pdf_data, Inl NoDocumentLoaded)
          else if query = [] then (user_pdf_data, Inl NoMessage)
          else (case retrieve_relevant_chunks argsort client user_pdf_data user_id query 3 of
                  Inl e \<Rightarrow> (user_pdf_data, Inl GenerationError)
                | Inr [] \<Rightarrow> (user_pdf_data, Inl RetrievalEmpty)
                | Inr (c # cs) \<Rightarrow> (user_pdf_data, Inr (c # cs))))"

text \<open>
  \<^verbatim>\<open>
  def logout():
      user_id = session.get('user_id')
      if user_id and user_id in user_pdf_data:
          del user_pdf_data[user_id]
  \<close>
  The session may hold no user; an empty user id is false in Python.
\<close>

definition logout :: "store \<Rightarrow> user_id option \<Rightarrow> store" where
  "logout user_pdf_data session_user =
     (case session_user of
        None \<Rightarrow> user_pdf_data
      | Some user_id \<Rightarrow>
          if user_id \<noteq> [] \<and> user_id \<in> dom user_pdf_data
          then user_pdf_data(user_id := None) else user_pdf_data)"

section \<open>Sequences of requests\<close>

text \<open>
  A request carries the behaviour of the embedding API during that request, since the API
  may fail at one call and succeed at the next. \<open>run\<close> serves a list of requests in order,
  starting from a given store.
\<close>

datatype request =
    Upload provider user_id string
  | Chat provider user_id string
  | Logout "user_id option"

fun handle :: "(real list \<Rightarrow> nat list) \<Rightarrow> store \<Rightarrow> request \<Rightarrow> store option" where
  "handle argsort s (Upload client u t) = map_option fst (upload_pdf client s u t)"
| "handle argsort s (Chat client u q) = Some (fst (pdf_chat argsort client s u q))"
| "handle argsort s (Logout su) = Some (logout s su)"

fun run :: "(real list \<Rightarrow> nat list) \<Rightarrow> store \<Rightarrow> request list \<Rightarrow> store option" where
  "run argsort s [] = Some s"
| "run argsort s (r # rs) =
     (case handle argsort s r of None \<Rightarrow> None | Some s' \<Rightarrow> run argsort s' rs)"

text \<open>
  The contract of the embedding API: a call that succeeds returns one embedding for each
  text of the batch. The source does not check it.
\<close>

definition one_vector_per_text :: "provider \<Rightarrow> bool" where
  "one_vector_per_text client =
     (\<forall>texts vs. client texts = Some vs \<longrightarrow> length vs = length texts)"

fun well_behaved :: "request \<Rightarrow> bool" where
  "well_behaved (Upload client u t) = one_vector_per_text client"
| "well_behaved (Chat client u q) = True"
| "well_behaved (Logout su) = True"

definition length_matched :: "store \<Rightarrow> bool" where
  "length_matched s =
     (\<forall>u pdf. s u = Some pdf \<longrightarrow> length (chunks pdf) = length (embeddings pdf))"

section \<open>Properties of the chunker\<close>

lemma py_slice_whole:
  "int (length xs) \<le> j \<Longrightarrow> py_slice xs 0 j = xs"
  by (simp add: py_slice_def slice_index_def)

lemma chunk_loop_exit:
  "\<not> start < int (length t) \<Longrightarrow> chunk_loop t sz ov start acc = Some acc"
  by (subst chunk_loop.simps) simp

lemma chunk_loop_iterate:
  "start < int (length t) \<Longrightarrow>
   chunk_loop t sz ov start acc =
   chunk_loop t sz ov (start + sz - ov) (acc @ [py_slice t start (start + sz)])"
  by (subst chunk_loop.simps) simp

text \<open>With \<open>overlap < chunk_size\<close> the start offset grows in every iteration, so the loop returns.\<close>

lemma chunk_loop_total:
  "ov < sz \<Longrightarrow> \<exists>r. chunk_loop t sz ov start acc = Some r"
proof (induction "nat (int (length t) - start)" arbitrary: start acc rule: less_induct)
  case less
  show ?case
  proof (cases "start < int (length t)")
    case True
    with less.prems
    have "nat (int (length t) - (start + sz - ov)) < nat (int (length t) - start)"
      by linarith
    from less.hyps[OF this less.prems] show ?thesis
      using True by (simp add: chunk_loop_iterate)
  next
    case False
    then show ?thesis by (simp add: chunk_loop_exit)
  qed
qed

lemma chunk_text_total:
  "ov < sz \<Longrightarrow> \<exists>r. chunk_text t sz ov = Some r"
  by (simp add: chunk_text_def chunk_loop_total)

text \<open>
  With \<open>chunk_size \<le> overlap\<close> the start offset never grows: once the loop is entered
  it is never left. The rule \<open>chunk_loop.raw_induct\<close> is fixpoint induction over the
  results the loop can return.
\<close>

lemma chunk_loop_no_result:
  "chunk_loop t sz ov start acc = Some r \<Longrightarrow> \<not> (sz \<le> ov \<and> start < int (length t))"
proof (induction rule: chunk_loop.raw_induct[rotated 1, consumes 1])
  case (1 f t sz ov st acc r)
  show ?case
  proof
    assume a: "sz \<le> ov \<and> st < int (length t)"
    with 1(2) have "f t sz ov (st + sz - ov) (acc @ [py_slice t st (st + sz)]) = Some r"
      by simp
    from 1(1)[OF this] a show False by simp
  qed
qed

lemma chunk_loop_diverges:
  "sz \<le> ov \<Longrightarrow> start < int (length t) \<Longrightarrow> chunk_loop t sz ov start acc = None"
  using chunk_loop_no_result by (cases "chunk_loop t sz ov start acc") blast+

text \<open>The loop only appends: what it returns extends the chunks it was entered with, by at
  least one chunk when the loop condition holds on entry.\<close>

lemma chunk_loop_extends:
  "chunk_loop t sz ov start acc = Some r \<Longrightarrow>
   \<exists>rest. r = acc @ rest \<and> (start < int (length t) \<longrightarrow> rest \<noteq> [])"
proof (induction rule: chunk_loop.raw_induct[rotated 1, consumes 1])
  case (1 f t sz ov st acc r)
  show ?case
  proof (cases "st < int (length t)")
    case True
    with 1(2) have "f t sz ov (st + sz - ov) (acc @ [py_slice t st (st + sz)]) = Some r"
      by simp
    from 1(1)[OF this] obtain rest where "r = (acc @ [py_slice t st (st + sz)]) @ rest"
      by blast
    then have "r = acc @ (py_slice t st (st + sz) # rest)" by simp
    then show ?thesis by blast
  next
    case False
    with 1(2) show ?thesis by simp
  qed
qed

text \<open>
  Claim C1 (the code departs from it). The claim: for every text and every pair of
  parameters with \<open>overlap \<ge> size\<close>, chunking fails with an invalid-configuration error
  rather than looping. The source has no such guard. At the text \<open>''a''\<close> with size 100
  and overlap 100 the start offset stays 0, with overlap 150 it decreases by 50 in every
  iteration; the loop condition \<open>start < 1\<close> stays true, and \<open>chunk_text\<close> never returns: its
  value in the option monad is \<open>None\<close>.
\<close>

theorem C1_chunk_text_overlap_ge_size_never_returns:
  "chunk_text ''a'' 100 100 = None \<and> chunk_text ''a'' 100 150 = None"
  by (simp add: chunk_text_def chunk_loop_diverges)

text \<open>
  Claim C3 as stated: chunking \<open>''ABCDEFGHIJ''\<close> with size 4 and overlap 1 gives exactly
  the three chunks ABCD, DEFG, GHIJ. The source does not return that list.
\<close>

theorem C3_three_chunks_counterexample:
  "chunk_text ''ABCDEFGHIJ'' 4 1 \<noteq> Some [''ABCD'', ''DEFG'', ''GHIJ'']"
  by (simp add: chunk_text_def chunk_loop.simps py_slice_def slice_index_def)

text \<open>
  Claim C3, amended: chunking \<open>''ABCDEFGHIJ''\<close> with size 4 and overlap 1 returns the four
  chunks ABCD, DEFG, GHIJ, J. The start offset advances by \<open>size - overlap = 3\<close>, and after
  offset 6 the offset 9 is still below the length 10, so the loop runs a fourth time and
  emits the clipped window \<open>[9, 13)\<close>. The chunks are the windows at the offsets 0, 3, 6, 9.
\<close>

theorem C3_chunk_text_example:
  "chunk_text ''ABCDEFGHIJ'' 4 1 = Some [''ABCD'', ''DEFG'', ''GHIJ'', ''J'']
   \<and> chunk_text ''ABCDEFGHIJ'' 4 1
       = Some (map (\<lambda>start. py_slice ''ABCDEFGHIJ'' start (start + 4)) [0, 3, 6, 9])"
  by (simp add: chunk_text_def chunk_loop.simps py_slice_def slice_index_def)

text \<open>
  Claim C4 as stated: for valid parameters, every non-empty text shorter than the size
  gives exactly one chunk. With size 4 and overlap 2 the text \<open>''ABC''\<close> gives two: after
  the first window the start offset is \<open>4 - 2 = 2\<close>, still below the length 3.
\<close>

theorem C4_short_text_counterexample:
  "chunk_text ''ABC'' 4 2 = Some [''ABC'', ''C'']"
  by (simp add: chunk_text_def chunk_loop.simps py_slice_def slice_index_def)

text \<open>
  Claim C4, amended: for every valid pair (\<open>0 \<le> overlap < size\<close>), chunking the empty text
  returns the empty sequence, and chunking a non-empty text shorter than the size returns a
  sequence whose first chunk is the whole text; that chunk is the only one exactly when the
  length of the text is at most \<open>size - overlap\<close>.
\<close>

theorem C4_chunk_text_short:
  assumes "0 \<le> overlap" and "overlap < chunk_size"
  shows "chunk_text [] chunk_size overlap = Some []
       \<and> (t \<noteq> [] \<and> int (length t) < chunk_size \<longrightarrow>
           (\<exists>rest. chunk_text t chunk_size overlap = Some (t # rest)
              \<and> (rest = [] \<longleftrightarrow> int (length t) \<le> chunk_size - overlap)))"
proof (intro conjI impI)
  show "chunk_text [] chunk_size overlap = Some []"
    by (simp add: chunk_text_def chunk_loop_exit)
next
  assume "t \<noteq> [] \<and> int (length t) < chunk_size"
  then have ne: "t \<noteq> []" and short: "int (length t) < chunk_size" by simp_all
  let ?next = "chunk_size - overlap"
  have first: "chunk_text t chunk_size overlap = chunk_loop t chunk_size overlap ?next [t]"
    using ne short by (simp add: chunk_text_def chunk_loop_iterate py_slice_whole)
  show "\<exists>rest. chunk_text t chunk_size overlap = Some (t # rest)
              \<and> (rest = [] \<longleftrightarrow> int (length t) \<le> chunk_size - overlap)"
  proof (cases "?next < int (length t)")
    case True
    from chunk_loop_total[OF assms(2)] obtain r
      where r: "chunk_loop t chunk_size overlap ?next [t] = Some r" by blast
    from chunk_loop_extends[OF r] True obtain rest
      where "r = [t] @ rest" and "rest \<noteq> []" by blast
    with r first True show ?thesis by simp
  next
    case False
    then show ?thesis using first by (simp add: chunk_loop_exit)
  qed
qed

theorem C4_chunk_text_short_witness:
  "(0::int) \<le> 200 \<and> (200::int) < 1000 \<and> ''ABC'' \<noteq> [] \<and> int (length ''ABC'') < 1000
   \<and> chunk_text [] 1000 200 = Some []
   \<and> (\<exists>rest. chunk_text ''ABC'' 1000 200 = Some (''ABC'' # rest)
         \<and> (rest = [] \<longleftrightarrow> int (length ''ABC'') \<le> 1000 - 200))"
  using C4_chunk_text_short[of 200 1000 "''ABC''"] by simp

section \<open>Properties of the similarity ranker\<close>

text \<open>The stable sort of the indices meets the contract of \<^verbatim>\<open>np.argsort\<close>.\<close>

lemma stable_argsort_spec: "argsort_spec stable_argsort"
  by (simp add: argsort_spec_def stable_argsort_def)

lemma argsort_length: "argsort_spec f \<Longrightarrow> length (f a) = length a"
proof -
  assume s: "argsort_spec f"
  then have "distinct (f a)" and "set (f a) = {0..<length a}"
    by (simp_all add: argsort_spec_def)
  then have "length (f a) = card {0..<length a}" by (metis distinct_card)
  then show ?thesis by simp
qed

lemma argsort_sorted: "argsort_spec f \<Longrightarrow> sorted_wrt (\<lambda>i j. a ! i \<le> a ! j) (f a)"
  by (simp add: argsort_spec_def sorted_map)

lemma top_indices_drop: "\<exists>m. top_indices f a k = rev (drop m (f a))"
  by (auto simp: top_indices_def py_slice_from_def)

lemma top_indices_zero: "top_indices f a 0 = rev (f a)"
  by (simp add: top_indices_def py_slice_from_def slice_index_def)

lemma top_indices_positive: "0 < k \<Longrightarrow> top_indices f a k = take (nat k) (rev (f a))"
  by (simp add: top_indices_def py_slice_from_def slice_index_def take_rev
      nat_diff_distrib' nat_add_distrib)

lemma length_top_indices:
  "argsort_spec f \<Longrightarrow> 0 < k \<Longrightarrow> length (top_indices f a k) = min (nat k) (length a)"
  by (simp add: top_indices_positive argsort_length)

lemma top_indices_descending:
  assumes "argsort_spec f"
  shows "sorted_wrt (\<lambda>i j. a ! j \<le> a ! i) (top_indices f a k)"
proof -
  obtain m where m: "top_indices f a k = rev (drop m (f a))"
    using top_indices_drop by blast
  have "sorted_wrt (\<lambda>i j. a ! i \<le> a ! j) (drop m (f a))"
    by (rule sorted_wrt_drop) (rule argsort_sorted[OF assms])
  then show ?thesis by (simp add: m sorted_wrt_rev)
qed

lemma top_indices_distinct: "argsort_spec f \<Longrightarrow> distinct (top_indices f a k)"
  by (simp add: top_indices_def py_slice_from_def argsort_spec_def)

lemma top_indices_in_range: "argsort_spec f \<Longrightarrow> set (top_indices f a k) \<subseteq> {0..<length a}"
proof -
  assume s: "argsort_spec f"
  obtain m where m: "top_indices f a k = rev (drop m (f a))"
    using top_indices_drop by blast
  have "set (drop m (f a)) \<subseteq> set (f a)" by (rule set_drop_subset)
  with s m show ?thesis by (simp add: argsort_spec_def)
qed

lemma top_indices_dominates:
  assumes "argsort_spec f" and "i \<in> set (top_indices f a k)"
    and "j < length a" and "j \<notin> set (top_indices f a k)"
  shows "a ! j \<le> a ! i"
proof -
  obtain m where m: "top_indices f a k = rev (drop m (f a))"
    using top_indices_drop by blast
  have "sorted_wrt (\<lambda>i j. a ! i \<le> a ! j) (take m (f a) @ drop m (f a))"
    using argsort_sorted[OF assms(1)] by simp
  then have cross: "\<forall>x \<in> set (take m (f a)). \<forall>y \<in> set (drop m (f a)). a ! x \<le> a ! y"
    unfolding sorted_wrt_append by blast
  from assms(1,3) have "j \<in> set (f a)" by (simp add: argsort_spec_def)
  then have "j \<in> set (take m (f a)) \<union> set (drop m (f a))"
    by (metis append_take_drop_id set_append)
  with assms(4) m have "j \<in> set (take m (f a))" by simp
  moreover from assms(2) m have "i \<in> set (drop m (f a))" by simp
  ultimately show ?thesis using cross by blast
qed

lemma argsort_two_descending:
  assumes "argsort_spec f" and "b < a"
  shows "f [a, b] = [1, 0]"
proof -
  from argsort_length[OF assms(1), of "[a, b]"] obtain i j where p: "f [a, b] = [i, j]"
    by (cases "f [a, b]") (auto simp: length_Suc_conv)
  from assms(1) have "distinct (f [a, b])" and "set (f [a, b]) = {0..<2}"
    and "sorted (map (\<lambda>i. [a, b] ! i) (f [a, b]))"
    by (simp_all add: argsort_spec_def numeral_2_eq_2)
  with p have d: "i \<noteq> j" and s: "{i, j} = {0..<2}" and o: "[a, b] ! i \<le> [a, b] ! j"
    by simp_all
  from s have "i < 2" and "j < 2" by auto
  with d have "(i = 0 \<and> j = 1) \<or> (i = 1 \<and> j = 0)" by auto
  with o assms(2) have "i = 1 \<and> j = 0" by auto
  with p show ?thesis by simp
qed

lemma top_indices_two_equal:
  assumes "argsort_spec f"
  shows "length (top_indices f [x, x] 2) = 2 \<and> set (top_indices f [x, x] 2) = {0, 1}"
proof -
  have len: "length (f [x, x]) = 2"
    using argsort_length[OF assms, of "[x, x]"] by simp
  have "top_indices f [x, x] 2 = take 2 (rev (f [x, x]))"
    using top_indices_positive[of 2 f "[x, x]"] by simp
  with len have t: "top_indices f [x, x] 2 = rev (f [x, x])" by simp
  from assms have "set (f [x, x]) = {0..<length [x, x]}"
    unfolding argsort_spec_def by blast
  also have "\<dots> = {0, 1}" by auto
  finally have "set (f [x, x]) = {0, 1}" .
  with t len show ?thesis by simp
qed

lemma retrieve_empty_corpus:
  "user_pdf_data u = Some pdf \<Longrightarrow> embeddings pdf = [] \<Longrightarrow>
   retrieve_relevant_chunks argsort client user_pdf_data u q k = Inr []"
  by (simp add: retrieve_relevant_chunks_def)

lemma select_chunks_subset: "select_chunks cs idx = Inr r \<Longrightarrow> set r \<subseteq> set cs"
  by (auto simp: select_chunks_def split: if_splits)

lemma retrieve_subset:
  "retrieve_relevant_chunks argsort client s u q k = Inr r \<Longrightarrow> s u = Some pdf \<Longrightarrow>
   set r \<subseteq> set (chunks pdf)"
  by (auto simp: retrieve_relevant_chunks_def
      split: if_splits option.splits list.splits sum.splits dest: select_chunks_subset)

text \<open>
  Claim C2 as stated: ties are broken by ascending corpus index, and for a corpus of two
  vectors identical to the query and \<open>k = 2\<close> the indices come out as \<open>[0, 1]\<close>. With the
  query \<open>[1, 0]\<close> both similarities are 1. An \<^verbatim>\<open>argsort\<close> that meets its contract and
  leaves the two equal values in index order returns \<open>[0, 1]\<close>, and the final reversal
  \<^verbatim>\<open>[::-1]\<close> turns it into \<open>[1, 0]\<close>.
\<close>

theorem C2_tie_order_counterexample:
  "argsort_spec (stable_argsort :: real list \<Rightarrow> nat list)
   \<and> cosine_similarity [1, 0] [[1, 0], [1, 0]] = Inr [1, 1]
   \<and> top_indices stable_argsort [1, 1 :: real] 2 = [1, 0]"
  by (simp add: stable_argsort_spec)
     (simp add: cosine_similarity_def dot_def normalize_def top_indices_def stable_argsort_def
      py_slice_from_def slice_index_def)

text \<open>
  Claim C2, amended: for every \<^verbatim>\<open>argsort\<close> that meets its contract, every list of
  similarities and every \<open>k\<close>, the ranking is a function of its inputs; the indices it
  returns are distinct, in descending order of similarity, \<open>min(k, n)\<close> of them for
  \<open>k \<ge> 1\<close>, and no index left out has a larger similarity than one returned. The order of
  indices of equal similarity is the reverse of the order \<^verbatim>\<open>argsort\<close> gives them, which its
  contract leaves open: no tie-break by ascending index holds. For two equal similarities
  and \<open>k = 2\<close> both indices 0 and 1 are returned, as \<open>[1, 0]\<close> when \<^verbatim>\<open>argsort\<close> returns
  \<open>[0, 1]\<close>.
\<close>

theorem C2_top_indices_order:
  assumes "argsort_spec argsort"
  shows "sorted_wrt (\<lambda>i j. a ! j \<le> a ! i) (top_indices argsort a k)
       \<and> distinct (top_indices argsort a k)
       \<and> set (top_indices argsort a k) \<subseteq> {0..<length a}
       \<and> (0 < k \<longrightarrow> length (top_indices argsort a k) = min (nat k) (length a))
       \<and> (\<forall>i j. i \<in> set (top_indices argsort a k) \<and> j < length a
                \<and> j \<notin> set (top_indices argsort a k) \<longrightarrow> a ! j \<le> a ! i)
       \<and> length (top_indices argsort [x, x] 2) = 2
       \<and> set (top_indices argsort [x, x] 2) = {0, 1}
       \<and> (argsort [x, x] = [0, 1] \<longrightarrow> top_indices argsort [x, x] 2 = [1, 0])"
proof (intro conjI)
  show "sorted_wrt (\<lambda>i j. a ! j \<le> a ! i) (top_indices argsort a k)"
    by (rule top_indices_descending[OF assms])
  show "distinct (top_indices argsort a k)"
    by (rule top_indices_distinct[OF assms])
  show "set (top_indices argsort a k) \<subseteq> {0..<length a}"
    by (rule top_indices_in_range[OF assms])
  show "0 < k \<longrightarrow> length (top_indices argsort a k) = min (nat k) (length a)"
    by (simp add: length_top_indices[OF assms])
  show "\<forall>i j. i \<in> set (top_indices argsort a k) \<and> j < length a
                \<and> j \<notin> set (top_indices argsort a k) \<longrightarrow> a ! j \<le> a ! i"
    using top_indices_dominates[OF assms] by blast
  show "length (top_indices argsort [x, x] 2) = 2"
    using top_indices_two_equal[OF assms] by blast
  show "set (top_indices argsort [x, x] 2) = {0, 1}"
    using top_indices_two_equal[OF assms] by blast
  show "argsort [x, x] = [0, 1] \<longrightarrow> top_indices argsort [x, x] 2 = [1, 0]"
    by (simp add: top_indices_def py_slice_from_def slice_index_def)
qed

theorem C2_top_indices_order_witness:
  "argsort_spec (stable_argsort :: real list \<Rightarrow> nat list)
   \<and> top_indices stable_argsort [3, 9, 9, 1 :: real] 2 = [2, 1]
   \<and> sorted_wrt (\<lambda>i j. [3, 9, 9, 1 :: real] ! j \<le> [3, 9, 9, 1] ! i)
        (top_indices stable_argsort [3, 9, 9, 1 :: real] 2)
   \<and> length (top_indices stable_argsort [3, 9, 9, 1 :: real] 2)
       = min (nat 2) (length [3, 9, 9, 1 :: real])
   \<and> stable_argsort [5, 5 :: real] = [0, 1]
   \<and> top_indices stable_argsort [5, 5 :: real] 2 = [1, 0]"
proof -
  have s: "argsort_spec (stable_argsort :: real list \<Rightarrow> nat list)"
    by (rule stable_argsort_spec)
  have e1: "top_indices stable_argsort [3, 9, 9, 1 :: real] 2 = [2, 1]"
    by (simp add: top_indices_def stable_argsort_def py_slice_from_def slice_index_def)
  have e2: "stable_argsort [5, 5 :: real] = [0, 1]"
    by (simp add: stable_argsort_def)
  note t = C2_top_indices_order[OF s, of "[3, 9, 9, 1]" 2 5]
  from t have t1: "sorted_wrt (\<lambda>i j. [3, 9, 9, 1 :: real] ! j \<le> [3, 9, 9, 1] ! i)
        (top_indices stable_argsort [3, 9, 9, 1 :: real] 2)" by blast
  from t have t2: "length (top_indices stable_argsort [3, 9, 9, 1 :: real] 2)
       = min (nat 2) (length [3, 9, 9, 1 :: real])" by simp
  from t e2 have t3: "top_indices stable_argsort [5, 5 :: real] 2 = [1, 0]" by blast
  from s e1 t1 t2 e2 t3 show ?thesis by (intro conjI)
qed

text \<open>
  Claim C5 (the code departs from it). The claim: the ranking returns exactly
  \<open>min(k, len(corpus))\<close> indices, so none for \<open>k = 0\<close>. The slice \<^verbatim>\<open>[-top_k:]\<close> is the
  whole array for \<open>top_k = 0\<close>: for a user with two chunks, \<open>top_k = 0\<close> returns both. The
  two similarities differ, so every \<^verbatim>\<open>argsort\<close> that meets its contract gives this result.
\<close>

theorem C5_top_k_zero_returns_all:
  assumes "argsort_spec argsort"
  shows "retrieve_relevant_chunks argsort (\<lambda>texts. Some [[1, 0]])
     [''u'' \<mapsto> \<lparr>chunks = [''a'', ''b''], embeddings = [[1, 0], [0, 1]], loaded = True\<rparr>]
     ''u'' ''q'' 0
   = Inr [''a'', ''b'']"
proof -
  have "argsort [1, 0 :: real] = [1, 0]"
    by (rule argsort_two_descending[OF assms]) simp
  then have "top_indices argsort [1, 0 :: real] 0 = [0, 1]"
    by (simp add: top_indices_zero)
  then show ?thesis
    by (simp add: retrieve_relevant_chunks_def get_embeddings_def cosine_similarity_def
        dot_def normalize_def select_chunks_def)
qed

theorem C5_top_k_zero_returns_all_witness:
  "argsort_spec (stable_argsort :: real list \<Rightarrow> nat list)
   \<and> list_all (\<lambda>y. length y = length [1, 0 :: real]) [[1, 0], [0, 1 :: real]]
   \<and> list_all (\<lambda>i. i < length [''a'', ''b'']) (top_indices stable_argsort [1, 0 :: real] 0)
   \<and> retrieve_relevant_chunks stable_argsort (\<lambda>texts. Some [[1, 0]])
        [''u'' \<mapsto> \<lparr>chunks = [''a'', ''b''], embeddings = [[1, 0], [0, 1]], loaded = True\<rparr>]
        ''u'' ''q'' 0
      = Inr [''a'', ''b'']"
  using C5_top_k_zero_returns_all[OF stable_argsort_spec]
  by (simp add: stable_argsort_spec top_indices_zero stable_argsort_def)

section \<open>Properties of the store\<close>

lemma upload_pdf_total: "\<exists>r. upload_pdf client s u t = Some r"
proof -
  obtain cs where "chunk_text t 1000 200 = Some cs"
    using chunk_text_total[of 200 1000 t] by auto
  then show ?thesis
    by (simp add: upload_pdf_def split: option.split list.split sum.split)
qed

text \<open>An upload either fails and returns the store it was given, or stores the chunks of
  the text with the embeddings the API returned for them.\<close>

lemma upload_pdf_cases:
  assumes "upload_pdf client s u t = Some (s', r)"
  shows "(s' = s \<and> (\<exists>e. r = Inl e)) \<or>
         (\<exists>cs vs. chunk_text t 1000 200 = Some cs \<and> get_embeddings client cs = Some vs
            \<and> vs \<noteq> []
            \<and> s' = s(u \<mapsto> \<lparr>chunks = cs, embeddings = vs, loaded = True\<rparr>)
            \<and> r = Inr (length cs))"
  using assms
  by (auto simp: upload_pdf_def np_array_def
      split: if_splits option.splits list.splits sum.splits)

lemma upload_pdf_failure_keeps_store:
  "upload_pdf client s u t = Some (s', Inl e) \<Longrightarrow> s' = s"
  by (drule upload_pdf_cases) auto

lemma upload_pdf_other_users:
  "upload_pdf client s u t = Some (s', r) \<Longrightarrow> v \<noteq> u \<Longrightarrow> s' v = s v"
  by (drule upload_pdf_cases) auto

lemma pdf_chat_store: "fst (pdf_chat argsort client s u q) = s"
  by (simp add: pdf_chat_def split: option.split sum.split list.split)

lemma logout_other_users: "su \<noteq> Some v \<Longrightarrow> logout s su v = s v"
  by (auto simp: logout_def split: option.split)

lemma pdf_chat_subset:
  "pdf_chat argsort client s u q = (s', Inr r) \<Longrightarrow> s u = Some pdf \<Longrightarrow> set r \<subseteq> set (chunks pdf)"
  by (auto simp: pdf_chat_def split: if_splits option.splits list.splits sum.splits
      dest: retrieve_subset)

text \<open>A request that is not a successful upload for \<open>u\<close> leaves a user without an entry
  without an entry.\<close>

lemma handle_keeps_empty:
  assumes "s u = None" and "handle argsort s r = Some s'"
    and "\<And>client t n. r = Upload client u t \<Longrightarrow> upload_pdf client s u t \<noteq> Some (s', Inr n)"
  shows "s' u = None"
proof (cases r)
  case (Upload client v t)
  with assms(2) obtain res where res: "upload_pdf client s v t = Some (s', res)"
    by (cases "upload_pdf client s v t") auto
  show ?thesis
  proof (cases "v = u")
    case True
    with res assms(3)[of client t] Upload obtain e where "res = Inl e"
      by (cases res) auto
    with res upload_pdf_failure_keeps_store assms(1) show ?thesis by blast
  next
    case False
    with upload_pdf_other_users[OF res] assms(1) show ?thesis by simp
  qed
next
  case (Chat client v q)
  with assms show ?thesis by (simp add: pdf_chat_store)
next
  case (Logout su)
  with assms show ?thesis by (auto simp: logout_def split: option.splits if_splits)
qed

lemma handle_length_matched:
  assumes "length_matched s" and "well_behaved r" and "handle argsort s r = Some s'"
  shows "length_matched s'"
proof (cases r)
  case (Upload client u t)
  with assms(3) obtain res where res: "upload_pdf client s u t = Some (s', res)"
    by (cases "upload_pdf client s u t") auto
  from upload_pdf_cases[OF res] show ?thesis
  proof
    assume "s' = s \<and> (\<exists>e. res = Inl e)"
    with assms(1) show ?thesis by simp
  next
    assume "\<exists>cs vs. chunk_text t 1000 200 = Some cs \<and> get_embeddings client cs = Some vs
            \<and> vs \<noteq> []
            \<and> s' = s(u \<mapsto> \<lparr>chunks = cs, embeddings = vs, loaded = True\<rparr>)
            \<and> res = Inr (length cs)"
    then obtain cs vs where e: "get_embeddings client cs = Some vs"
      and s': "s' = s(u \<mapsto> \<lparr>chunks = cs, embeddings = vs, loaded = True\<rparr>)" by blast
    from assms(2) Upload e have "length vs = length cs"
      by (simp add: one_vector_per_text_def get_embeddings_def)
    with assms(1) s' show ?thesis by (simp add: length_matched_def)
  qed
next
  case (Chat client u q)
  with assms show ?thesis by (simp add: pdf_chat_store)
next
  case (Logout su)
  with assms show ?thesis
    by (auto simp: length_matched_def logout_def split: option.splits if_splits)
qed

lemma run_length_matched:
  "length_matched s \<Longrightarrow> list_all well_behaved rs \<Longrightarrow> run argsort s rs = Some s' \<Longrightarrow>
   length_matched s'"
proof (induction rs arbitrary: s)
  case Nil
  then show ?case by simp
next
  case (Cons r rs)
  from Cons.prems(3) obtain s1 where h: "handle argsort s r = Some s1" and rest: "run argsort s1 rs = Some s'"
    by (auto split: option.splits)
  from handle_length_matched[OF Cons.prems(1) _ h] Cons.prems(2) have "length_matched s1"
    by simp
  from Cons.IH[OF this _ rest] Cons.prems(2) show ?case by simp
qed

text \<open>Every request returns, and so does every sequence of requests.\<close>

lemma handle_total: "\<exists>s'. handle argsort s r = Some s'"
  using upload_pdf_total by (cases r) fastforce+

lemma run_total: "\<exists>s'. run argsort s rs = Some s'"
proof (induction rs arbitrary: s)
  case Nil
  then show ?case by simp
next
  case (Cons r rs)
  obtain s1 where "handle argsort s r = Some s1" using handle_total by blast
  with Cons.IH[of s1] show ?case by simp
qed

lemma strip_doc: "strip ''doc'' = ''doc''"
  by (simp add: strip_def py_isspace_def)

lemma chunk_doc: "chunk_text ''doc'' 1000 200 = Some [''doc'']"
  by (simp add: chunk_text_def chunk_loop.simps py_slice_def slice_index_def)

text \<open>
  Claim C6: when the embedding step of an upload fails (the call to the API raises, so
  that \<open>get_embeddings\<close> returns \<open>None\<close>, or it returns no embedding at all), the handler
  reports the failure and returns the store it was given: the user's earlier entry, if
  any, is the same and answers queries as before, and a user without an entry still has
  none.
\<close>

theorem C6_failed_embedding_keeps_store:
  assumes "strip t \<noteq> []"
    and "chunk_text t 1000 200 = Some cs"
    and "get_embeddings client cs = None \<or> get_embeddings client cs = Some []"
  shows "upload_pdf client s u t = Some (s, Inl EmbeddingProviderError)
       \<and> (\<forall>s' r. upload_pdf client s u t = Some (s', r) \<longrightarrow>
             s' u = s u \<and> pdf_chat argsort client' s' u q = pdf_chat argsort client' s u q)"
  using assms by (auto simp: upload_pdf_def)

theorem C6_failed_embedding_keeps_store_witness:
  "strip ''doc'' \<noteq> [] \<and> chunk_text ''doc'' 1000 200 = Some [''doc'']
   \<and> get_embeddings (\<lambda>texts. None) [''doc''] = None
   \<and> upload_pdf (\<lambda>texts. None)
        [''u'' \<mapsto> \<lparr>chunks = [''old''], embeddings = [[1, 0]], loaded = True\<rparr>] ''u'' ''doc''
      = Some ([''u'' \<mapsto> \<lparr>chunks = [''old''], embeddings = [[1, 0]], loaded = True\<rparr>],
              Inl EmbeddingProviderError)"
proof -
  have h1: "strip ''doc'' \<noteq> []" by (simp add: strip_doc)
  have h2: "chunk_text ''doc'' 1000 200 = Some [''doc'']" by (rule chunk_doc)
  have h3: "get_embeddings (\<lambda>texts. None) [''doc''] = None" by (simp add: get_embeddings_def)
  from C6_failed_embedding_keeps_store[OF h1 h2 disjI1[OF h3]] h1 h2 h3 show ?thesis by blast
qed

text \<open>
  Claim C7: for a user without an entry in the store (no upload has succeeded for that
  user), every chat request fails with "Please upload a PDF first" and returns no chunks.
\<close>

theorem C7_query_without_document:
  "user_pdf_data u = None \<Longrightarrow>
   pdf_chat argsort client user_pdf_data u q = (user_pdf_data, Inl NoDocumentLoaded)"
  by (simp add: pdf_chat_def)

theorem C7_query_without_document_witness:
  "(Map.empty :: store) ''u'' = None
   \<and> pdf_chat stable_argsort (\<lambda>texts. Some [[1, 0]]) Map.empty ''u'' ''question''
       = (Map.empty, Inl NoDocumentLoaded)"
  using C7_query_without_document[where user_pdf_data = Map.empty and u = "''u''"
      and argsort = stable_argsort and client = "\<lambda>texts. Some [[1, 0]]" and q = "''question''"]
  by simp

text \<open>
  Claim C8: a successful upload replaces the user's entry, whatever it was: the stored
  chunks are the chunks of the new text, the stored vectors are the embeddings returned for
  them, and every chunk that a later retrieval or chat request returns for the user is one
  of the chunks of the new text.
\<close>

theorem C8_upload_replaces_index:
  assumes "upload_pdf client s u t = Some (s', Inr n)"
  shows "\<exists>cs vs. chunk_text t 1000 200 = Some cs \<and> get_embeddings client cs = Some vs
           \<and> n = length cs
           \<and> s' u = Some \<lparr>chunks = cs, embeddings = vs, loaded = True\<rparr>
           \<and> (\<forall>argsort client' q k r.
                 retrieve_relevant_chunks argsort client' s' u q k = Inr r
                 \<longrightarrow> set r \<subseteq> set cs)
           \<and> (\<forall>argsort client' q r.
                 snd (pdf_chat argsort client' s' u q) = Inr r \<longrightarrow> set r \<subseteq> set cs)"
proof -
  from upload_pdf_cases[OF assms] obtain cs vs
    where cs: "chunk_text t 1000 200 = Some cs" and vs: "get_embeddings client cs = Some vs"
      and s': "s' = s(u \<mapsto> \<lparr>chunks = cs, embeddings = vs, loaded = True\<rparr>)"
      and n: "n = length cs"
    by auto
  from s' have entry: "s' u = Some \<lparr>chunks = cs, embeddings = vs, loaded = True\<rparr>" by simp
  have r1: "\<forall>argsort client' q k r.
              retrieve_relevant_chunks argsort client' s' u q k = Inr r
              \<longrightarrow> set r \<subseteq> set cs"
  proof (intro allI impI)
    fix argsort client' q k r
    assume "retrieve_relevant_chunks argsort client' s' u q k = Inr r"
    from retrieve_subset[OF this entry] show "set r \<subseteq> set cs" by simp
  qed
  have r2: "\<forall>argsort client' q r.
              snd (pdf_chat argsort client' s' u q) = Inr r \<longrightarrow> set r \<subseteq> set cs"
  proof (intro allI impI)
    fix argsort client' q r
    assume "snd (pdf_chat argsort client' s' u q) = Inr r"
    then have "pdf_chat argsort client' s' u q
                 = (fst (pdf_chat argsort client' s' u q), Inr r)"
      by (metis prod.collapse)
    from pdf_chat_subset[OF this entry] show "set r \<subseteq> set cs" by simp
  qed
  from cs vs n entry r1 r2 show ?thesis by blast
qed

theorem C8_upload_replaces_index_witness:
  "upload_pdf (\<lambda>texts. Some (map (\<lambda>t. [0, 1]) texts))
      [''u'' \<mapsto> \<lparr>chunks = [''old''], embeddings = [[1, 0]], loaded = True\<rparr>] ''u'' ''doc''
    = Some ([''u'' \<mapsto> \<lparr>chunks = [''doc''], embeddings = [[0, 1]], loaded = True\<rparr>], Inr 1)
   \<and> (\<exists>cs vs. chunk_text ''doc'' 1000 200 = Some cs
         \<and> get_embeddings (\<lambda>texts. Some (map (\<lambda>t. [0, 1]) texts)) cs = Some vs
         \<and> (1::nat) = length cs
         \<and> [''u'' \<mapsto> \<lparr>chunks = [''doc''], embeddings = [[0, 1]], loaded = True\<rparr>] ''u''
             = Some \<lparr>chunks = cs, embeddings = vs, loaded = True\<rparr>
         \<and> (\<forall>argsort client' q k r.
               retrieve_relevant_chunks argsort client'
                 [''u'' \<mapsto> \<lparr>chunks = [''doc''], embeddings = [[0, 1]], loaded = True\<rparr>]
                 ''u'' q k = Inr r \<longrightarrow> set r \<subseteq> set cs)
         \<and> (\<forall>argsort client' q r.
               snd (pdf_chat argsort client'
                 [''u'' \<mapsto> \<lparr>chunks = [''doc''], embeddings = [[0, 1]], loaded = True\<rparr>]
                 ''u'' q) = Inr r \<longrightarrow> set r \<subseteq> set cs))"
proof -
  have h: "upload_pdf (\<lambda>texts. Some (map (\<lambda>t. [0, 1]) texts))
      [''u'' \<mapsto> \<lparr>chunks = [''old''], embeddings = [[1, 0]], loaded = True\<rparr>] ''u'' ''doc''
    = Some ([''u'' \<mapsto> \<lparr>chunks = [''doc''], embeddings = [[0, 1]], loaded = True\<rparr>], Inr 1)"
    by (simp add: upload_pdf_def strip_doc chunk_doc get_embeddings_def np_array_def)
  from C8_upload_replaces_index[OF h] h show ?thesis by (intro conjI)
qed

text \<open>
  Claim C9 as stated: every store reached by a sequence of requests has as many chunks as
  vectors in every entry. The upload handler stores the embeddings it receives without
  comparing their number with the number of chunks: when the API answers the one chunk of
  \<open>''doc''\<close> with two embeddings, the entry stored has one chunk and two vectors.
\<close>

theorem C9_unchecked_count_counterexample:
  "run stable_argsort Map.empty [Upload (\<lambda>texts. Some [[1, 0], [0, 1]]) ''u'' ''doc'']
     = Some [''u'' \<mapsto> \<lparr>chunks = [''doc''], embeddings = [[1, 0], [0, 1]], loaded = True\<rparr>]
   \<and> length (chunks \<lparr>chunks = [''doc''], embeddings = [[1, 0], [0, 1]], loaded = True\<rparr>)
       \<noteq> length (embeddings
            \<lparr>chunks = [''doc''], embeddings = [[1, 0], [0, 1]], loaded = True\<rparr>)"
  by (simp add: upload_pdf_def strip_doc chunk_doc get_embeddings_def np_array_def)

text \<open>
  Claim C9, amended: in every store reached from the empty store by a sequence of upload,
  chat and logout requests in which every successful call of the embedding API during an
  upload returns one embedding for each text of its batch, every entry has as many chunks
  as vectors. Every sequence of requests returns.
\<close>

theorem C9_lengths_match:
  assumes "list_all well_behaved rs"
  shows "(\<exists>s. run argsort Map.empty rs = Some s)
       \<and> (\<forall>s u pdf. run argsort Map.empty rs = Some s \<and> s u = Some pdf
             \<longrightarrow> length (chunks pdf) = length (embeddings pdf))"
proof (intro conjI allI impI)
  show "\<exists>s. run argsort Map.empty rs = Some s" by (rule run_total)
next
  fix s u pdf
  assume a: "run argsort Map.empty rs = Some s \<and> s u = Some pdf"
  have "length_matched Map.empty" by (simp add: length_matched_def)
  from run_length_matched[OF this assms] a have "length_matched s" by blast
  with a show "length (chunks pdf) = length (embeddings pdf)"
    unfolding length_matched_def by blast
qed

lemma one_vector_per_text_map: "one_vector_per_text (\<lambda>texts. Some (map f texts))"
  by (auto simp: one_vector_per_text_def)

text \<open>Two users upload, one asks a question, the other logs out and loses the entry.\<close>

lemma run_example:
  "run stable_argsort Map.empty
     [Upload (\<lambda>texts. Some (map (\<lambda>t. [0, 1]) texts)) ''u'' ''doc'',
      Upload (\<lambda>texts. Some (map (\<lambda>t. [1, 0]) texts)) ''v'' ''doc'',
      Chat (\<lambda>texts. Some [[0, 1]]) ''u'' ''question'',
      Logout (Some ''v'')]
   = Some ([''u'' \<mapsto> \<lparr>chunks = [''doc''], embeddings = [[0, 1]], loaded = True\<rparr>,
            ''v'' \<mapsto> \<lparr>chunks = [''doc''], embeddings = [[1, 0]], loaded = True\<rparr>]
           (''v'' := None))"
  by (simp add: upload_pdf_def strip_doc chunk_doc get_embeddings_def np_array_def
      pdf_chat_store logout_def)

theorem C9_lengths_match_witness:
  "list_all well_behaved
     [Upload (\<lambda>texts. Some (map (\<lambda>t. [0, 1]) texts)) ''u'' ''doc'',
      Upload (\<lambda>texts. Some (map (\<lambda>t. [1, 0]) texts)) ''v'' ''doc'',
      Chat (\<lambda>texts. Some [[0, 1]]) ''u'' ''question'',
      Logout (Some ''v'')]
   \<and> run stable_argsort Map.empty
     [Upload (\<lambda>texts. Some (map (\<lambda>t. [0, 1]) texts)) ''u'' ''doc'',
      Upload (\<lambda>texts. Some (map (\<lambda>t. [1, 0]) texts)) ''v'' ''doc'',
      Chat (\<lambda>texts. Some [[0, 1]]) ''u'' ''question'',
      Logout (Some ''v'')]
     = Some ([''u'' \<mapsto> \<lparr>chunks = [''doc''], embeddings = [[0, 1]], loaded = True\<rparr>,
              ''v'' \<mapsto> \<lparr>chunks = [''doc''], embeddings = [[1, 0]], loaded = True\<rparr>]
             (''v'' := None))
   \<and> ([''u'' \<mapsto> \<lparr>chunks = [''doc''], embeddings = [[0, 1 :: real]], loaded = True\<rparr>,
        ''v'' \<mapsto> \<lparr>chunks = [''doc''], embeddings = [[1, 0]], loaded = True\<rparr>]
       (''v'' := None)) ''u''
     = Some \<lparr>chunks = [''doc''], embeddings = [[0, 1]], loaded = True\<rparr>
   \<and> ([''u'' \<mapsto> \<lparr>chunks = [''doc''], embeddings = [[0, 1 :: real]], loaded = True\<rparr>,
        ''v'' \<mapsto> \<lparr>chunks = [''doc''], embeddings = [[1, 0]], loaded = True\<rparr>]
       (''v'' := None)) ''v'' = None
   \<and> length (chunks \<lparr>chunks = [''doc''], embeddings = [[0, 1]], loaded = True\<rparr>)
     = length (embeddings \<lparr>chunks = [''doc''], embeddings = [[0, 1]], loaded = True\<rparr>)"
proof -
  let ?rs = "[Upload (\<lambda>texts. Some (map (\<lambda>t. [0, 1]) texts)) ''u'' ''doc'',
      Upload (\<lambda>texts. Some (map (\<lambda>t. [1, 0]) texts)) ''v'' ''doc'',
      Chat (\<lambda>texts. Some [[0, 1]]) ''u'' ''question'',
      Logout (Some ''v'')]"
  let ?pdf = "\<lparr>chunks = [''doc''], embeddings = [[0, 1 :: real]], loaded = True\<rparr>"
  let ?s = "[''u'' \<mapsto> ?pdf,
             ''v'' \<mapsto> \<lparr>chunks = [''doc''], embeddings = [[1, 0 :: real]], loaded = True\<rparr>]
            (''v'' := None)"
  have h: "list_all well_behaved ?rs" by (simp add: one_vector_per_text_map)
  have e: "?s ''u'' = Some ?pdf" by simp
  have e': "?s ''v'' = None" by simp
  from C9_lengths_match[OF h, of stable_argsort] run_example e
  have "length (chunks ?pdf) = length (embeddings ?pdf)" by blast
  with h run_example e e' show ?thesis by (intro conjI)
qed

text \<open>
  Claim C10: a chat request returns the store it was given; an upload for user \<open>u\<close> and a
  logout of user \<open>u\<close> leave the entry of every other user as it was, and a logout without a
  session user changes nothing.
\<close>

theorem C10_frame:
  "fst (pdf_chat argsort client s u q) = s
   \<and> (upload_pdf client s u t = Some (s', r) \<and> v \<noteq> u \<longrightarrow> s' v = s v)
   \<and> (v \<noteq> u \<longrightarrow> logout s (Some u) v = s v)
   \<and> logout s None = s"
  using upload_pdf_other_users[of client s u t s' r v]
  by (simp add: pdf_chat_store logout_other_users) (simp add: logout_def)

theorem C10_frame_witness:
  "upload_pdf (\<lambda>texts. Some (map (\<lambda>t. [0, 1]) texts))
      [''v'' \<mapsto> \<lparr>chunks = [''old''], embeddings = [[1, 0]], loaded = True\<rparr>,
       ''u'' \<mapsto> \<lparr>chunks = [''mine''], embeddings = [[1, 1]], loaded = True\<rparr>] ''u'' ''doc''
    = Some ([''v'' \<mapsto> \<lparr>chunks = [''old''], embeddings = [[1, 0]], loaded = True\<rparr>,
             ''u'' \<mapsto> \<lparr>chunks = [''doc''], embeddings = [[0, 1]], loaded = True\<rparr>], Inr 1)
   \<and> ''v'' \<noteq> ''u''
   \<and> [''v'' \<mapsto> \<lparr>chunks = [''old''], embeddings = [[1, 0 :: real]], loaded = True\<rparr>,
       ''u'' \<mapsto> \<lparr>chunks = [''doc''], embeddings = [[0, 1]], loaded = True\<rparr>] ''v''
     = [''v'' \<mapsto> \<lparr>chunks = [''old''], embeddings = [[1, 0 :: real]], loaded = True\<rparr>,
        ''u'' \<mapsto> \<lparr>chunks = [''mine''], embeddings = [[1, 1]], loaded = True\<rparr>] ''v''
   \<and> logout [''v'' \<mapsto> \<lparr>chunks = [''old''], embeddings = [[1, 0 :: real]], loaded = True\<rparr>,
              ''u'' \<mapsto> \<lparr>chunks = [''mine''], embeddings = [[1, 1]], loaded = True\<rparr>]
        (Some ''u'') ''u'' = None
   \<and> logout [''v'' \<mapsto> \<lparr>chunks = [''old''], embeddings = [[1, 0 :: real]], loaded = True\<rparr>,
              ''u'' \<mapsto> \<lparr>chunks = [''mine''], embeddings = [[1, 1]], loaded = True\<rparr>]
        (Some ''u'') ''v''
     = [''v'' \<mapsto> \<lparr>chunks = [''old''], embeddings = [[1, 0 :: real]], loaded = True\<rparr>,
        ''u'' \<mapsto> \<lparr>chunks = [''mine''], embeddings = [[1, 1]], loaded = True\<rparr>] ''v''"
proof -
  let ?c = "\<lambda>texts :: string list. Some (map (\<lambda>t. [0, 1 :: real]) texts)"
  let ?s = "[''v'' \<mapsto> \<lparr>chunks = [''old''], embeddings = [[1, 0 :: real]], loaded = True\<rparr>,
             ''u'' \<mapsto> \<lparr>chunks = [''mine''], embeddings = [[1, 1]], loaded = True\<rparr>]"
  let ?s' = "[''v'' \<mapsto> \<lparr>chunks = [''old''], embeddings = [[1, 0 :: real]], loaded = True\<rparr>,
              ''u'' \<mapsto> \<lparr>chunks = [''doc''], embeddings = [[0, 1]], loaded = True\<rparr>]"
  have h: "upload_pdf ?c ?s ''u'' ''doc'' = Some (?s', Inr 1)"
    by (simp add: upload_pdf_def strip_doc chunk_doc get_embeddings_def np_array_def)
  have d: "''v'' \<noteq> ''u''" by simp
  have gone: "logout ?s (Some ''u'') ''u'' = None" by (simp add: logout_def)
  from C10_frame[where argsort = stable_argsort and client = ?c and s = ?s and u = "''u''"
      and q = "''q''" and t = "''doc''" and s' = ?s' and r = "Inr 1" and v = "''v''"] h d
  have "?s' ''v'' = ?s ''v'' \<and> logout ?s (Some ''u'') ''v'' = ?s ''v''" by blast
  with h d gone show ?thesis by (intro conjI) blast+
qed

end
